theory Spec2Isabelle
  imports Main "HOL-Library.List_Lexorder" "HOL-Library.Char_ord"
begin

section \<open>Values, exceptions and tabular data\<close>

text \<open>
  The program is Python on top of pandas, sqlite3, akshare and the \<open>retry\<close> package.
  Exceptions are values of \<open>exn\<close>; a computation that may raise returns \<open>exn + 'a\<close>
  with \<open>Inl\<close> for the exception. Every exception of the model is a subclass of Python's
  \<open>Exception\<close>, so every \<open>except Exception\<close> handler catches all of them.
\<close>

datatype exn =
    ProviderError
  | ValueError
  | IndexError
  | OverflowError
  | TypeError
  | AttributeError
  | OperationalError
  | IntegrityError
  | NoneResult

text \<open>
  A cell of a DataFrame or of a database row. Numeric payloads are only stored and
  compared by the program, never computed with, so one numeric constructor suffices.
  \<open>Null\<close> stands for Python's None, pandas' NaN and SQL NULL.
\<close>

datatype cell = Null | Text string | Num int

text \<open>
  A pandas DataFrame: column labels and positional rows. \<open>DataFrame.empty\<close> is true when
  either axis has length zero. Column labels of one frame are taken to be distinct; where
  a label is looked up, the first column carrying it is read.
\<close>

record frame =
  cols :: "string list"
  rows :: "cell list list"

definition empty_frame :: frame where
  "empty_frame = \<lparr>cols = [], rows = []\<rparr>"

definition df_empty :: "frame \<Rightarrow> bool" where
  "df_empty f = (cols f = [] \<or> rows f = [])"

fun index_of :: "'a \<Rightarrow> 'a list \<Rightarrow> nat option" where
  "index_of x [] = None"
| "index_of x (y # ys) =
     (if x = y then Some 0 else (case index_of x ys of None \<Rightarrow> None | Some i \<Rightarrow> Some (Suc i)))"

definition nth_cell :: "cell list \<Rightarrow> nat \<Rightarrow> cell" where
  "nth_cell r i = (if i < length r then r ! i else Null)"

definition column_values :: "string \<Rightarrow> frame \<Rightarrow> cell list" where
  "column_values c f =
     (case index_of c (cols f) of None \<Rightarrow> [] | Some i \<Rightarrow> map (\<lambda>r. nth_cell r i) (rows f))"

definition rename_columns :: "(string \<times> string) list \<Rightarrow> frame \<Rightarrow> frame" where
  "rename_columns mapping f =
     f\<lparr>cols := map (\<lambda>c. case map_of mapping c of None \<Rightarrow> c | Some c' \<Rightarrow> c') (cols f)\<rparr>"

definition set_column :: "string \<Rightarrow> cell \<Rightarrow> frame \<Rightarrow> frame" where
  "set_column c v f =
     (case index_of c (cols f) of
        None \<Rightarrow> \<lparr>cols = cols f @ [c], rows = map (\<lambda>r. r @ [v]) (rows f)\<rparr>
      | Some i \<Rightarrow> f\<lparr>rows := map (\<lambda>r. r[i := v]) (rows f)\<rparr>)"

definition select_columns :: "string list \<Rightarrow> frame \<Rightarrow> frame" where
  "select_columns cs f =
     \<lparr>cols = cs,
      rows = map (\<lambda>r. map (\<lambda>c. case index_of c (cols f) of None \<Rightarrow> Null
                                   | Some i \<Rightarrow> nth_cell r i) cs) (rows f)\<rparr>"

section \<open>Dates and their string forms\<close>

record date =
  year :: nat
  month :: nat
  day :: nat

definition leap :: "nat \<Rightarrow> bool" where
  "leap y = (y mod 4 = 0 \<and> (y mod 100 \<noteq> 0 \<or> y mod 400 = 0))"

definition days_in_month :: "nat \<Rightarrow> nat \<Rightarrow> nat" where
  "days_in_month y m =
     (if m = 2 then (if leap y then 29 else 28)
      else if m = 4 \<or> m = 6 \<or> m = 9 \<or> m = 11 then 30 else 31)"

text \<open>Python's \<open>datetime\<close> covers the years 1 to 9999.\<close>

definition valid_date :: "date \<Rightarrow> bool" where
  "valid_date d =
     (1 \<le> year d \<and> year d \<le> 9999 \<and> 1 \<le> month d \<and> month d \<le> 12 \<and>
      1 \<le> day d \<and> day d \<le> days_in_month (year d) (month d))"


text \<open>\<open>d + timedelta(days=1)\<close>; past 9999-12-31 Python raises OverflowError.\<close>

definition next_day :: "date \<Rightarrow> exn + date" where
  "next_day d =
     (if day d < days_in_month (year d) (month d) then Inr (d\<lparr>day := day d + 1\<rparr>)
      else if month d < 12 then Inr (d\<lparr>month := month d + 1, day := 1\<rparr>)
      else if year d < 9999 then Inr \<lparr>year = year d + 1, month = 1, day = 1\<rparr>
      else Inl OverflowError)"

text \<open>\<open>d - timedelta(days=1)\<close>; before 0001-01-01 Python raises OverflowError.\<close>

definition prev_day :: "date \<Rightarrow> exn + date" where
  "prev_day d =
     (if 1 < day d then Inr (d\<lparr>day := day d - 1\<rparr>)
      else if 1 < month d
        then Inr (d\<lparr>month := month d - 1, day := days_in_month (year d) (month d - 1)\<rparr>)
      else if 1 < year d then Inr \<lparr>year = year d - 1, month = 12, day = 31\<rparr>
      else Inl OverflowError)"

fun minus_days :: "nat \<Rightarrow> date \<Rightarrow> exn + date" where
  "minus_days 0 d = Inr d"
| "minus_days (Suc n) d = (case prev_day d of Inl e \<Rightarrow> Inl e | Inr d' \<Rightarrow> minus_days n d')"

definition digit :: "nat \<Rightarrow> char" where
  "digit n = char_of (48 + n)"

definition pad2 :: "nat \<Rightarrow> string" where
  "pad2 n = [digit (n div 10 mod 10), digit (n mod 10)]"

definition pad4 :: "nat \<Rightarrow> string" where
  "pad4 n = [digit (n div 1000 mod 10), digit (n div 100 mod 10),
             digit (n div 10 mod 10), digit (n mod 10)]"

text \<open>\<open>strftime('%Y%m%d')\<close> and \<open>strftime('%Y-%m-%d')\<close>, with the zero padding of the
  Python documentation.\<close>

definition strftime_compact :: "date \<Rightarrow> string" where
  "strftime_compact d = pad4 (year d) @ pad2 (month d) @ pad2 (day d)"

definition strftime_iso :: "date \<Rightarrow> string" where
  "strftime_iso d = pad4 (year d) @ ''-'' @ pad2 (month d) @ ''-'' @ pad2 (day d)"

text \<open>\<open>str.split(sep)\<close> for a one-character separator.\<close>

fun split_on :: "char \<Rightarrow> string \<Rightarrow> string list" where
  "split_on s [] = [[]]"
| "split_on s (c # cs) =
     (if c = s then [] # split_on s cs
      else (case split_on s cs of [] \<Rightarrow> [[c]] | x # xs \<Rightarrow> (c # x) # xs))"

definition is_digit :: "char \<Rightarrow> bool" where
  "is_digit c = (48 \<le> (of_char c :: nat) \<and> (of_char c :: nat) \<le> 57)"

definition digit_val :: "char \<Rightarrow> nat" where
  "digit_val c = of_char c - 48"

definition number_of :: "string \<Rightarrow> nat" where
  "number_of s = foldl (\<lambda>n c. 10 * n + digit_val c) 0 s"

text \<open>
  \<open>datetime.strptime(s, '%Y-%m-%d')\<close>. Python matches the regular expression
  \<open>(\d\d\d\d)-(1[0-2]|0[1-9]|[1-9])-(3[01]|[12]\d|0[1-9]|[1-9]| [1-9])\<close> against the
  whole string and then builds the date; any mismatch or impossible date is a
  ValueError. Since no field can contain a dash, the fields are the three parts between
  the dashes.
\<close>

definition strptime_iso :: "string \<Rightarrow> exn + date" where
  "strptime_iso s =
     (case split_on CHR ''-'' s of
        [ys, ms, ds] \<Rightarrow>
          (let ds' = (case ds of [sp, c] \<Rightarrow> (if sp = CHR '' '' \<and> c \<noteq> CHR ''0'' then [c] else ds)
                               | _ \<Rightarrow> ds);
               y = number_of ys; m = number_of ms; d = number_of ds'
           in if length ys = 4 \<and> list_all is_digit ys \<and>
                 (length ms = 1 \<or> length ms = 2) \<and> list_all is_digit ms \<and>
                 (length ds' = 1 \<or> length ds' = 2) \<and> list_all is_digit ds' \<and>
                 valid_date \<lparr>year = y, month = m, day = d\<rparr>
              then Inr \<lparr>year = y, month = m, day = d\<rparr>
              else Inl ValueError)
      | _ \<Rightarrow> Inl ValueError)"

section \<open>The relational store (database.py)\<close>

text \<open>
  Table \<open>stock_info\<close>: \<open>code TEXT PRIMARY KEY\<close> and five nullable text columns (the
  defaulted \<open>updated_at\<close> column is never written by the program and is left out).
  Instrument codes are strings.
\<close>

record info_row =
  code :: string
  name :: cell
  industry :: cell
  area :: cell
  market :: cell
  list_date :: cell

text \<open>
  Table \<open>stock_prices\<close>: \<open>id INTEGER PRIMARY KEY AUTOINCREMENT\<close>, eight data columns and
  \<open>UNIQUE(code, date)\<close>.
\<close>

record price_row =
  p_id :: nat
  p_code :: cell
  p_date :: cell
  p_open :: cell
  p_high :: cell
  p_low :: cell
  p_close :: cell
  p_volume :: cell
  p_amount :: cell

text \<open>Table \<open>stock_concepts\<close>: \<open>(code, concept)\<close> with \<open>PRIMARY KEY (code, concept)\<close>.\<close>

record database =
  stock_info :: "info_row list"
  stock_prices :: "price_row list"
  stock_prices_seq :: nat
  stock_concepts :: "(cell \<times> cell) list"

definition init_database :: database where
  "init_database =
     \<lparr>stock_info = [], stock_prices = [], stock_prices_seq = 0, stock_concepts = []\<rparr>"

text \<open>
  \<open>save_stock_info\<close>: \<open>DELETE FROM stock_info\<close>, \<open>conn.commit()\<close>, then
  \<open>DataFrame.to_sql(..., if_exists='append')\<close>, which inserts the rows with plain INSERT
  statements inside one transaction of its own: a repeated primary key raises
  IntegrityError and that transaction is rolled back. The handler logs and re-raises.
\<close>

fun to_sql_stock_info :: "info_row list \<Rightarrow> info_row list \<Rightarrow> exn + info_row list" where
  "to_sql_stock_info [] tbl = Inr tbl"
| "to_sql_stock_info (r # rs) tbl =
     (if code r \<in> set (map code tbl) then Inl IntegrityError
      else to_sql_stock_info rs (tbl @ [r]))"

definition save_stock_info :: "info_row list \<Rightarrow> database \<Rightarrow> (exn + unit) \<times> database" where
  "save_stock_info stock_data d =
     (let committed = d\<lparr>stock_info := []\<rparr>
      in case to_sql_stock_info stock_data (stock_info committed) of
           Inl e \<Rightarrow> (Inl e, committed)
         | Inr tbl \<Rightarrow> (Inr (), committed\<lparr>stock_info := tbl\<rparr>))"

text \<open>
  \<open>save_stock_prices\<close>: for a non-empty frame the statement
  \<open>INSERT OR REPLACE INTO stock_prices (code, date, open, high, low, close, volume, amount)
  VALUES (?, ..., ?)\<close> is built with one placeholder per DataFrame column and run with
  \<open>executemany\<close> over the row tuples, then committed. SQLite rejects the statement
  (OperationalError, nothing executed) when the number of values is not the number of
  named columns. REPLACE deletes the rows that conflict on \<open>UNIQUE(code, date)\<close> and
  inserts the new row under a fresh id; a NULL in a key column never conflicts.
\<close>

definition price_key :: "price_row \<Rightarrow> cell \<times> cell" where
  "price_key r = (p_code r, p_date r)"

definition key_present :: "cell \<times> cell \<Rightarrow> bool" where
  "key_present k = (fst k \<noteq> Null \<and> snd k \<noteq> Null)"

definition price_row_of :: "nat \<Rightarrow> cell list \<Rightarrow> price_row" where
  "price_row_of i t =
     \<lparr>p_id = i, p_code = nth_cell t 0, p_date = nth_cell t 1, p_open = nth_cell t 2,
      p_high = nth_cell t 3, p_low = nth_cell t 4, p_close = nth_cell t 5,
      p_volume = nth_cell t 6, p_amount = nth_cell t 7\<rparr>"

definition insert_or_replace_price :: "database \<Rightarrow> cell list \<Rightarrow> database" where
  "insert_or_replace_price d t =
     (let new = price_row_of (stock_prices_seq d + 1) t;
          kept = filter (\<lambda>r. \<not> (key_present (price_key new) \<and> price_key r = price_key new))
                   (stock_prices d)
      in d\<lparr>stock_prices := kept @ [new], stock_prices_seq := stock_prices_seq d + 1\<rparr>)"

definition save_stock_prices :: "frame \<Rightarrow> database \<Rightarrow> (exn + unit) \<times> database" where
  "save_stock_prices price_data d =
     (if \<not> df_empty price_data then
        (if length (cols price_data) \<noteq> 8 then (Inl OperationalError, d)
         else (Inr (), foldl insert_or_replace_price d (rows price_data)))
      else (Inr (), d))"

text \<open>
  \<open>save_stock_concepts\<close>: for a non-empty frame,
  \<open>to_sql('stock_concepts', if_exists='append', method='multi')\<close>, that is one plain
  multi-row INSERT. A frame column the table does not have is an OperationalError; a
  row whose \<open>(code, concept)\<close> is already stored, or occurs earlier in the same
  statement, violates the primary key: IntegrityError, and the statement inserts
  nothing. The handler logs and re-raises.
\<close>

definition cell_at :: "string \<Rightarrow> frame \<Rightarrow> cell list \<Rightarrow> cell" where
  "cell_at c f r = (case index_of c (cols f) of None \<Rightarrow> Null | Some i \<Rightarrow> nth_cell r i)"

fun insert_concepts :: "(cell \<times> cell) list \<Rightarrow> (cell \<times> cell) list \<Rightarrow> exn + (cell \<times> cell) list" where
  "insert_concepts [] tbl = Inr tbl"
| "insert_concepts (k # ks) tbl =
     (if key_present k \<and> k \<in> set tbl then Inl IntegrityError
      else insert_concepts ks (tbl @ [k]))"

definition save_stock_concepts :: "frame \<Rightarrow> database \<Rightarrow> (exn + unit) \<times> database" where
  "save_stock_concepts concept_data d =
     (if \<not> df_empty concept_data then
        (if \<not> list_all (\<lambda>c. c = ''code'' \<or> c = ''concept'') (cols concept_data)
         then (Inl OperationalError, d)
         else (case insert_concepts
                      (map (\<lambda>r. (cell_at ''code'' concept_data r, cell_at ''concept'' concept_data r))
                         (rows concept_data))
                      (stock_concepts d) of
                 Inl e \<Rightarrow> (Inl e, d)
               | Inr tbl \<Rightarrow> (Inr (), d\<lparr>stock_concepts := tbl\<rparr>)))
      else (Inr (), d))"

text \<open>
  \<open>self.db.get_all_stocks_latest_dates()\<close>, as \<open>download_all_stocks_data\<close> calls it. The
  class \<open>StockDatabase\<close> defines no attribute of this name (and no \<open>__getattr__\<close>), so the
  attribute lookup raises AttributeError before any query is made. The result type is
  that of the table the caller goes on to read: rows of \<open>code\<close> and \<open>latest_date\<close>.
\<close>

definition get_all_stocks_latest_dates :: "database \<Rightarrow> exn + (cell \<times> cell) list" where
  "get_all_stocks_latest_dates d = Inl AttributeError"

section \<open>The provider, the clock and the run state\<close>

text \<open>
  akshare is an external collaborator: each of its functions is an oracle that, at the
  \<open>tick\<close>-th provider call of the run, returns a table or raises. \<open>today\<close> is the date
  \<open>datetime.now()\<close> reads during the run; \<open>set_order\<close> ranks the elements of a Python
  set in its (unspecified) iteration order.
\<close>

record environment =
  stock_info_a_code_name :: "nat \<Rightarrow> exn + (string \<times> cell) list"
  stock_info_sh_name_code :: "nat \<Rightarrow> exn + frame"
  stock_info_sz_name_code :: "nat \<Rightarrow> exn + frame"
  stock_zh_a_stock_ipo :: "nat \<Rightarrow> string \<Rightarrow> exn + frame"
  stock_zh_a_hist :: "nat \<Rightarrow> string \<Rightarrow> string \<Rightarrow> string \<Rightarrow> exn + frame"
  stock_board_concept_name_ths :: "nat \<Rightarrow> exn + frame"
  stock_board_concept_cons_ths :: "nat \<Rightarrow> string \<Rightarrow> exn + frame"
  today :: date
  set_order :: "cell \<Rightarrow> nat"

datatype event =
    Call_code_name
  | Call_sh_name_code
  | Call_sz_name_code
  | Call_stock_ipo string
  | Call_hist string string string
  | Call_concept_name_ths
  | Call_concept_cons_ths string
  | Sleep nat
  | Summary nat nat

record world =
  db :: database
  tick :: nat
  trace :: "event list"

definition provider_call :: "event \<Rightarrow> (nat \<Rightarrow> exn + 'a) \<Rightarrow> world \<Rightarrow> (exn + 'a) \<times> world" where
  "provider_call ev oracle w =
     (oracle (tick w), w\<lparr>tick := tick w + 1, trace := trace w @ [ev]\<rparr>)"

definition log_event :: "event \<Rightarrow> world \<Rightarrow> world" where
  "log_event ev w = w\<lparr>trace := trace w @ [ev]\<rparr>"

definition db_write :: "(database \<Rightarrow> (exn + unit) \<times> database) \<Rightarrow> world \<Rightarrow> (exn + unit) \<times> world" where
  "db_write op w = (case op (db w) of (r, d) \<Rightarrow> (r, w\<lparr>db := d\<rparr>))"

section \<open>The retry decorator\<close>

text \<open>
  \<open>@retry(Exception, tries, delay, backoff)\<close> of the \<open>retry\<close> package: call the function;
  on an exception decrement the attempts left, re-raise if none is left, otherwise sleep
  \<open>delay\<close>, multiply \<open>delay\<close> by \<open>backoff\<close> and try again. With \<open>tries = 0\<close> the function
  is never called and the wrapper returns None.
\<close>

fun retry_call ::
  "nat \<Rightarrow> nat \<Rightarrow> nat \<Rightarrow> (world \<Rightarrow> (exn + 'a) \<times> world) \<Rightarrow> world \<Rightarrow> (exn + 'a) \<times> world" where
  "retry_call 0 delay backoff f w = (Inl NoneResult, w)"
| "retry_call (Suc n) delay backoff f w =
     (case f w of
        (Inr v, w') \<Rightarrow> (Inr v, w')
      | (Inl e, w') \<Rightarrow>
          (if n = 0 then (Inl e, w')
           else retry_call n (delay * backoff) backoff f (log_event (Sleep delay) w')))"

section \<open>DataFetcher (data_fetcher.py)\<close>

record data_fetcher =
  max_retries :: nat
  retry_delay :: nat

text \<open>The provider's column labels are Chinese; they are written as their UTF-8 bytes.\<close>

definition col_concept_name_zh :: string where
  "col_concept_name_zh =
     [CHR 0xE6, CHR 0xA6, CHR 0x82, CHR 0xE5, CHR 0xBF, CHR 0xB5,
      CHR 0xE5, CHR 0x90, CHR 0x8D, CHR 0xE7, CHR 0xA7, CHR 0xB0]"

definition col_board_name_zh :: string where
  "col_board_name_zh =
     [CHR 0xE6, CHR 0x9D, CHR 0xBF, CHR 0xE5, CHR 0x9D, CHR 0x97,
      CHR 0xE5, CHR 0x90, CHR 0x8D, CHR 0xE7, CHR 0xA7, CHR 0xB0]"

definition col_date_zh :: string where
  "col_date_zh = [CHR 0xE6, CHR 0x97, CHR 0xA5, CHR 0xE6, CHR 0x9C, CHR 0x9F]"

definition col_open_zh :: string where
  "col_open_zh = [CHR 0xE5, CHR 0xBC, CHR 0x80, CHR 0xE7, CHR 0x9B, CHR 0x98]"

definition col_high_zh :: string where
  "col_high_zh = [CHR 0xE6, CHR 0x9C, CHR 0x80, CHR 0xE9, CHR 0xAB, CHR 0x98]"

definition col_low_zh :: string where
  "col_low_zh = [CHR 0xE6, CHR 0x9C, CHR 0x80, CHR 0xE4, CHR 0xBD, CHR 0x8E]"

definition col_close_zh :: string where
  "col_close_zh = [CHR 0xE6, CHR 0x94, CHR 0xB6, CHR 0xE7, CHR 0x9B, CHR 0x98]"

definition col_volume_zh :: string where
  "col_volume_zh =
     [CHR 0xE6, CHR 0x88, CHR 0x90, CHR 0xE4, CHR 0xBA, CHR 0xA4, CHR 0xE9, CHR 0x87, CHR 0x8F]"

definition col_amount_zh :: string where
  "col_amount_zh =
     [CHR 0xE6, CHR 0x88, CHR 0x90, CHR 0xE4, CHR 0xBA, CHR 0xA4, CHR 0xE9, CHR 0xA2, CHR 0x9D]"

definition col_pct_change_zh :: string where
  "col_pct_change_zh =
     [CHR 0xE6, CHR 0xB6, CHR 0xA8, CHR 0xE8, CHR 0xB7, CHR 0x8C, CHR 0xE5, CHR 0xB9, CHR 0x85]"

definition col_turnover_rate_zh :: string where
  "col_turnover_rate_zh =
     [CHR 0xE6, CHR 0x8D, CHR 0xA2, CHR 0xE6, CHR 0x89, CHR 0x8B, CHR 0xE7, CHR 0x8E, CHR 0x87]"

definition column_mapping :: "(string \<times> string) list" where
  "column_mapping =
     [(col_date_zh, ''date''), (col_open_zh, ''open''), (col_high_zh, ''high''),
      (col_low_zh, ''low''), (col_close_zh, ''close''), (col_volume_zh, ''volume''),
      (col_amount_zh, ''amount''), (col_pct_change_zh, ''pct_change''),
      (col_turnover_rate_zh, ''turnover_rate'')]"

subsection \<open>fetch_stock_list\<close>

record exchange_row =
  x_code :: cell
  x_name :: cell
  x_industry :: cell
  x_area :: cell
  x_market :: cell

text \<open>
  One exchange feed: a failure of the call, an empty table or fewer than four columns
  give an empty enrichment; otherwise the first four columns are read as code, name,
  industry and area, and the market is added.
\<close>

definition exchange_feed ::
  "event \<Rightarrow> (nat \<Rightarrow> exn + frame) \<Rightarrow> string \<Rightarrow> world \<Rightarrow> exchange_row list \<times> world" where
  "exchange_feed ev oracle mkt w =
     (case provider_call ev oracle w of
        (Inl e, w') \<Rightarrow> ([], w')
      | (Inr f, w') \<Rightarrow>
          (if \<not> df_empty f \<and> 4 \<le> length (cols f)
           then (map (\<lambda>r. \<lparr>x_code = nth_cell r 0, x_name = nth_cell r 1,
                            x_industry = nth_cell r 2, x_area = nth_cell r 3,
                            x_market = Text mkt\<rparr>) (rows f), w')
           else ([], w')))"

text \<open>
  \<open>pd.merge(stock_list, stock_info, on='code', how='left')\<close> followed by
  \<open>name = name_x.fillna(name_y)\<close>: every row of the primary list is kept, in order, once
  per matching enrichment row (once with empty fields when there is none), and the
  primary name wins unless it is missing.
\<close>

definition merge_left :: "(string \<times> cell) list \<Rightarrow> exchange_row list \<Rightarrow> info_row list" where
  "merge_left stock_list stock_info_rows =
     concat (map (\<lambda>(c, n).
        (case filter (\<lambda>x. x_code x = Text c) stock_info_rows of
           [] \<Rightarrow> [\<lparr>code = c, name = n, industry = Null, area = Null, market = Null,
                   list_date = Null\<rparr>]
         | ms \<Rightarrow> map (\<lambda>x. \<lparr>code = c, name = (if n = Null then x_name x else n),
                            industry = x_industry x, area = x_area x, market = x_market x,
                            list_date = Null\<rparr>) ms)) stock_list)"

definition fetch_stock_list_body :: "environment \<Rightarrow> world \<Rightarrow> (exn + info_row list) \<times> world" where
  "fetch_stock_list_body env w =
     (case provider_call Call_code_name (stock_info_a_code_name env) w of
        (Inl e, w1) \<Rightarrow> (Inl e, w1)
      | (Inr stock_list, w1) \<Rightarrow>
          (if stock_list = [] then (Inr [], w1)
           else
             (case exchange_feed Call_sh_name_code (stock_info_sh_name_code env) ''SH'' w1 of
                (sh, w2) \<Rightarrow>
             (case exchange_feed Call_sz_name_code (stock_info_sz_name_code env) ''SZ'' w2 of
                (sz, w3) \<Rightarrow>
             (let stock_info_rows = sh @ sz;
                  result =
                    (if stock_info_rows \<noteq> [] then merge_left stock_list stock_info_rows
                     else map (\<lambda>(c, n). \<lparr>code = c, name = n, industry = Null, area = Null,
                                          market = Null, list_date = Null\<rparr>) stock_list)
              in (case provider_call (Call_stock_ipo (code (hd result)))
                         (\<lambda>t. stock_zh_a_stock_ipo env t (code (hd result))) w3 of
                    (ipo, w4) \<Rightarrow>
                      (Inr (map (\<lambda>r. r\<lparr>list_date := Text (strftime_iso (today env))\<rparr>) result),
                       w4)))))))"

text \<open>
  The decorator is \<open>@retry(Exception, tries=3, delay=2, backoff=2)\<close> on each of the three
  fetch methods; the fields of \<open>self\<close> are not read.
\<close>

definition fetch_stock_list ::
  "data_fetcher \<Rightarrow> environment \<Rightarrow> world \<Rightarrow> (exn + info_row list) \<times> world" where
  "fetch_stock_list self env = retry_call 3 2 2 (fetch_stock_list_body env)"

subsection \<open>fetch_stock_prices\<close>

text \<open>The date range of a period: the two strings handed to the provider.\<close>

definition period_range :: "environment \<Rightarrow> string \<Rightarrow> exn + string \<times> string" where
  "period_range env period =
     (if period = ''1year'' then
        (case minus_days 365 (today env) of Inl e \<Rightarrow> Inl e
         | Inr s \<Rightarrow> Inr (strftime_compact s, strftime_compact (today env)))
      else if period = ''3year'' then
        (case minus_days 1095 (today env) of Inl e \<Rightarrow> Inl e
         | Inr s \<Rightarrow> Inr (strftime_compact s, strftime_compact (today env)))
      else if period = ''5year'' then
        (case minus_days 1825 (today env) of Inl e \<Rightarrow> Inl e
         | Inr s \<Rightarrow> Inr (strftime_compact s, strftime_compact (today env)))
      else if period = ''all'' then Inr (''19900101'', strftime_compact (today env))
      else if CHR ''_'' \<in> set period then
        (case split_on CHR ''_'' period of
           a # b # rest \<Rightarrow> Inr (a, b)
         | _ \<Rightarrow> Inl IndexError)
      else Inr (''20200101'', strftime_compact (today env)))"

definition required_columns :: "string list" where
  "required_columns = [''code'', ''date'', ''open'', ''high'', ''low'', ''close'', ''volume'']"

definition optional_columns :: "string list" where
  "optional_columns = [''amount'', ''pct_change'', ''turnover_rate'']"

definition add_missing_columns :: "string list \<Rightarrow> frame \<Rightarrow> frame" where
  "add_missing_columns cs f =
     foldl (\<lambda>g c. if c \<in> set (cols g) then g else set_column c Null g) f cs"

definition normalize_prices :: "string \<Rightarrow> frame \<Rightarrow> frame" where
  "normalize_prices c hist =
     (let renamed = rename_columns column_mapping hist;
          with_code = set_column ''code'' (Text c) renamed;
          available_columns = filter (\<lambda>col. col \<in> set (cols with_code)) required_columns;
          filled = add_missing_columns required_columns with_code
      in select_columns
           (available_columns @ filter (\<lambda>col. col \<in> set (cols filled)) optional_columns)
           filled)"

definition fetch_stock_prices_body ::
  "environment \<Rightarrow> string \<Rightarrow> string \<Rightarrow> world \<Rightarrow> (exn + frame) \<times> world" where
  "fetch_stock_prices_body env c period w =
     (case period_range env period of
        Inl e \<Rightarrow> (Inl e, w)
      | Inr (start_date_str, end_date_str) \<Rightarrow>
          (case provider_call (Call_hist c start_date_str end_date_str)
                  (\<lambda>t. stock_zh_a_hist env t c start_date_str end_date_str) w of
             (Inl e, w') \<Rightarrow> (Inl e, w')
           | (Inr hist, w') \<Rightarrow>
               (if \<not> df_empty hist then (Inr (normalize_prices c hist), w')
                else (Inr hist, w'))))"

definition fetch_stock_prices ::
  "data_fetcher \<Rightarrow> environment \<Rightarrow> string \<Rightarrow> string \<Rightarrow> world \<Rightarrow> (exn + frame) \<times> world" where
  "fetch_stock_prices self env c period = retry_call 3 2 2 (fetch_stock_prices_body env c period)"

subsection \<open>fetch_stock_concepts\<close>

text \<open>
  The three provider methods are tried in order; the first non-empty table is kept, a
  method that raises or returns an empty table is passed over.
\<close>

fun first_nonempty ::
  "(world \<Rightarrow> (exn + frame) \<times> world) list \<Rightarrow> world \<Rightarrow> frame \<times> world" where
  "first_nonempty [] w = (empty_frame, w)"
| "first_nonempty (m # ms) w =
     (case m w of
        (Inr temp_df, w') \<Rightarrow> (if \<not> df_empty temp_df then (temp_df, w') else first_nonempty ms w')
      | (Inl e, w') \<Rightarrow> first_nonempty ms w')"

definition concept_methods :: "environment \<Rightarrow> string \<Rightarrow> (world \<Rightarrow> (exn + frame) \<times> world) list" where
  "concept_methods env c =
     [provider_call Call_concept_name_ths (stock_board_concept_name_ths env),
      provider_call (Call_concept_cons_ths c) (\<lambda>t. stock_board_concept_cons_ths env t c),
      provider_call Call_concept_name_ths (stock_board_concept_name_ths env)]"

text \<open>\<open>list(set(xs))\<close>: the distinct elements, in the iteration order of the set.\<close>

definition list_of_set :: "(cell \<Rightarrow> nat) \<Rightarrow> cell list \<Rightarrow> cell list" where
  "list_of_set order xs = sort_key order (remdups xs)"

definition extract_concepts :: "environment \<Rightarrow> frame \<Rightarrow> cell list" where
  "extract_concepts env concept_df =
     (let concepts =
            (if col_concept_name_zh \<in> set (cols concept_df)
               then column_values col_concept_name_zh concept_df
             else if ''concept_name'' \<in> set (cols concept_df)
               then column_values ''concept_name'' concept_df
             else if col_board_name_zh \<in> set (cols concept_df)
               then column_values col_board_name_zh concept_df
             else [])
      in take 10 (list_of_set (set_order env) concepts))"

definition fetch_stock_concepts_body ::
  "environment \<Rightarrow> string \<Rightarrow> world \<Rightarrow> (exn + frame) \<times> world" where
  "fetch_stock_concepts_body env c w =
     (case first_nonempty (concept_methods env c) w of
        (concept_df, w') \<Rightarrow>
          (if \<not> df_empty concept_df then
             (let concepts = extract_concepts env concept_df
              in if concepts \<noteq> []
                 then (Inr \<lparr>cols = [''code'', ''concept''],
                            rows = map (\<lambda>x. [Text c, x]) concepts\<rparr>, w')
                 else (Inr empty_frame, w'))
           else (Inr empty_frame, w')))"

definition fetch_stock_concepts ::
  "data_fetcher \<Rightarrow> environment \<Rightarrow> string \<Rightarrow> world \<Rightarrow> (exn + frame) \<times> world" where
  "fetch_stock_concepts self env c = retry_call 3 2 2 (fetch_stock_concepts_body env c)"

subsection \<open>update_all_data\<close>

text \<open>
  The two inner \<open>try\<close> blocks of the loop body: fetch, persist when the result is not
  empty; any exception of the fetch or of the write is logged and dropped there.
\<close>

definition update_prices :: "data_fetcher \<Rightarrow> environment \<Rightarrow> string \<Rightarrow> string \<Rightarrow> world \<Rightarrow> world" where
  "update_prices self env c period w =
     (case fetch_stock_prices self env c period w of
        (Inl e, w') \<Rightarrow> w'
      | (Inr prices, w') \<Rightarrow>
          (if \<not> df_empty prices then snd (db_write (save_stock_prices prices) w') else w'))"

definition update_concepts :: "data_fetcher \<Rightarrow> environment \<Rightarrow> string \<Rightarrow> world \<Rightarrow> world" where
  "update_concepts self env c w =
     (case fetch_stock_concepts self env c w of
        (Inl e, w') \<Rightarrow> w'
      | (Inr concepts, w') \<Rightarrow>
          (if \<not> df_empty concepts then snd (db_write (save_stock_concepts concepts) w') else w'))"

text \<open>\<open>if (i + 1) % 5 == 0 and i + 1 < total_stocks: time.sleep(3)\<close>\<close>

definition pause_after :: "nat \<Rightarrow> nat \<Rightarrow> world \<Rightarrow> world" where
  "pause_after i total_stocks w =
     (if (i + 1) mod 5 = 0 \<and> i + 1 < total_stocks then log_event (Sleep 3) w else w)"

text \<open>
  The loop of \<open>update_all_data\<close> over the rows from index \<open>i\<close> on, with the pair
  \<open>(success_count, failed_count)\<close>. The handler of the outer \<open>try\<close>, the only place that
  increments \<open>failed_count\<close>, guards the two inner blocks, the increment and the pause;
  none of them raises.
\<close>

fun update_loop ::
  "data_fetcher \<Rightarrow> environment \<Rightarrow> string \<Rightarrow> nat \<Rightarrow> nat \<Rightarrow> info_row list \<Rightarrow> nat \<times> nat \<Rightarrow> world
     \<Rightarrow> (nat \<times> nat) \<times> world" where
  "update_loop self env price_period total_stocks i [] counts w = (counts, w)"
| "update_loop self env price_period total_stocks i (row # rest) counts w =
     (let w1 = update_prices self env (code row) price_period w;
          w2 = update_concepts self env (code row) w1;
          w3 = pause_after i total_stocks w2
      in update_loop self env price_period total_stocks (i + 1) rest
           (fst counts + 1, snd counts) w3)"

text \<open>\<open>DataFrame.head(n)\<close>: the first \<open>n\<close> rows, or all but the last \<open>-n\<close> for negative \<open>n\<close>.\<close>

definition head :: "int \<Rightarrow> 'a list \<Rightarrow> 'a list" where
  "head n xs = (if 0 \<le> n then take (nat n) xs else take (length xs - nat (- n)) xs)"

definition update_all_data ::
  "data_fetcher \<Rightarrow> environment \<Rightarrow> int option \<Rightarrow> string \<Rightarrow> world \<Rightarrow> world" where
  "update_all_data self env stock_limit price_period w =
     (case fetch_stock_list self env w of
        (Inl e, w1) \<Rightarrow> w1
      | (Inr stock_list, w1) \<Rightarrow>
          (if stock_list \<noteq> [] then
             (case db_write (save_stock_info stock_list) w1 of
                (Inl e, w2) \<Rightarrow> w2
              | (Inr u, w2) \<Rightarrow>
                  (let stocks_to_process =
                         (case stock_limit of
                            None \<Rightarrow> stock_list
                          | Some n \<Rightarrow> (if n \<noteq> 0 then head n stock_list else stock_list))
                   in (case update_loop self env price_period (length stocks_to_process) 0
                              stocks_to_process (0, 0) w2 of
                         (counts, w3) \<Rightarrow> log_event (Summary (fst counts) (snd counts)) w3)))
           else w1))"

section \<open>StockDataUpdater (auto_updater.py)\<close>

text \<open>Python truthiness of a cell read from the watermark table.\<close>

definition truthy :: "cell \<Rightarrow> bool" where
  "truthy v = (case v of Null \<Rightarrow> False | Text s \<Rightarrow> s \<noteq> [] | Num n \<Rightarrow> n \<noteq> 0)"

text \<open>\<open>{row['code']: row['latest_date'] for ...}\<close>: a later row overrides an earlier one.\<close>

definition dict_of :: "('k \<times> 'v) list \<Rightarrow> 'k \<Rightarrow> 'v option" where
  "dict_of kvs = map_of (rev kvs)"

text \<open>
  The body of the outer \<open>try\<close> of the incremental loop for one instrument, up to and
  including the concept refresh. \<open>Inl\<close> is an exception that reaches the outer handler
  (\<open>strptime\<close> or the date addition raising); the inner blocks absorb their own.
\<close>

definition incremental_step ::
  "data_fetcher \<Rightarrow> environment \<Rightarrow> string \<Rightarrow> (cell \<Rightarrow> cell option) \<Rightarrow> string \<Rightarrow> world
     \<Rightarrow> (exn + unit) \<times> world" where
  "incremental_step self env price_period latest_dates c w =
     (case latest_dates (Text c) of
        None \<Rightarrow>
          (Inr (), update_concepts self env c (update_prices self env c price_period w))
      | Some v \<Rightarrow>
          (if truthy v then
             (case v of
                Text latest_date \<Rightarrow>
                  (case strptime_iso latest_date of
                     Inl e \<Rightarrow> (Inl e, w)
                   | Inr latest_date_obj \<Rightarrow>
                       (case next_day latest_date_obj of
                          Inl e \<Rightarrow> (Inl e, w)
                        | Inr next_day_obj \<Rightarrow>
                            (let next_day_str = strftime_compact next_day_obj;
                                 today_str = strftime_compact (today env);
                                 w1 = (if next_day_str \<le> today_str
                                       then update_prices self env c
                                              (next_day_str @ ''_'' @ today_str) w
                                       else w)
                             in (Inr (), update_concepts self env c w1))))
              | _ \<Rightarrow> (Inl TypeError, w))
           else (Inr (), update_concepts self env c (update_prices self env c price_period w))))"

fun incremental_loop ::
  "data_fetcher \<Rightarrow> environment \<Rightarrow> string \<Rightarrow> (cell \<Rightarrow> cell option) \<Rightarrow> nat \<Rightarrow> nat \<Rightarrow> info_row list
     \<Rightarrow> nat \<times> nat \<Rightarrow> world \<Rightarrow> (nat \<times> nat) \<times> world" where
  "incremental_loop self env price_period latest_dates total_stocks i [] counts w = (counts, w)"
| "incremental_loop self env price_period latest_dates total_stocks i (row # rest) counts w =
     (case incremental_step self env price_period latest_dates (code row) w of
        (Inr u, w1) \<Rightarrow>
          incremental_loop self env price_period latest_dates total_stocks (i + 1) rest
            (fst counts + 1, snd counts) (pause_after i total_stocks w1)
      | (Inl e, w1) \<Rightarrow>
          incremental_loop self env price_period latest_dates total_stocks (i + 1) rest
            (fst counts, snd counts + 1) w1)"

text \<open>
  \<open>download_all_stocks_data\<close> returns its boolean together with the final state. In the
  full mode the result of \<open>update_all_data\<close> (always None) is not looked at. In the
  incremental mode every exception that leaves the body, that of the watermark lookup
  included, reaches the handler of the outer \<open>try\<close>, which returns False.
\<close>

definition download_all_stocks_data ::
  "data_fetcher \<Rightarrow> environment \<Rightarrow> string \<Rightarrow> bool \<Rightarrow> world \<Rightarrow> bool \<times> world" where
  "download_all_stocks_data fetcher env price_period incremental w =
     (if \<not> incremental then (True, update_all_data fetcher env None price_period w)
      else
        (case fetch_stock_list fetcher env w of
           (Inl e, w1) \<Rightarrow> (False, w1)
         | (Inr stock_list, w1) \<Rightarrow>
             (if stock_list = [] then (False, w1)
              else
                (case db_write (save_stock_info stock_list) w1 of
                   (Inl e, w2) \<Rightarrow> (False, w2)
                 | (Inr u, w2) \<Rightarrow>
                     (case get_all_stocks_latest_dates (db w2) of
                        Inl e \<Rightarrow> (False, w2)
                      | Inr latest_dates_df \<Rightarrow>
                          (case incremental_loop fetcher env price_period
                                  (dict_of latest_dates_df)
                                  (length stock_list) 0 stock_list (0, 0) w2 of
                             (counts, w4) \<Rightarrow>
                               (True, log_event (Summary (fst counts) (snd counts)) w4)))))))"

definition update_daily_data :: "data_fetcher \<Rightarrow> environment \<Rightarrow> world \<Rightarrow> bool \<times> world" where
  "update_daily_data fetcher env w = download_all_stocks_data fetcher env ''all'' True w"

section \<open>Observations and sample data\<close>

text \<open>The price requests sent to the provider, read off a trace.\<close>

fun hist_requests :: "event list \<Rightarrow> (string \<times> string \<times> string) list" where
  "hist_requests [] = []"
| "hist_requests (Call_hist c s e # evs) = (c, s, e) # hist_requests evs"
| "hist_requests (ev # evs) = hist_requests evs"

text \<open>A sequence of \<open>save_stock_prices\<close> calls, whatever each of them returns.\<close>

definition save_all_prices :: "frame list \<Rightarrow> database \<Rightarrow> database" where
  "save_all_prices fs d = foldl (\<lambda>d' f. snd (save_stock_prices f d')) d fs"

definition tuple_key :: "cell list \<Rightarrow> cell \<times> cell" where
  "tuple_key t = (nth_cell t 0, nth_cell t 1)"

definition unique_price_keys :: "database \<Rightarrow> bool" where
  "unique_price_keys d = distinct (filter key_present (map price_key (stock_prices d)))"

text \<open>Sample inputs for the concrete evaluations below.\<close>

definition world0 :: world where
  "world0 = \<lparr>db = init_database, tick = 0, trace = []\<rparr>"

definition default_fetcher :: data_fetcher where
  "default_fetcher = \<lparr>max_retries = 3, retry_delay = 5\<rparr>"

definition env_down :: environment where
  "env_down =
     \<lparr>stock_info_a_code_name = (\<lambda>t. Inl ProviderError),
      stock_info_sh_name_code = (\<lambda>t. Inl ProviderError),
      stock_info_sz_name_code = (\<lambda>t. Inl ProviderError),
      stock_zh_a_stock_ipo = (\<lambda>t c. Inl ProviderError),
      stock_zh_a_hist = (\<lambda>t c s e. Inl ProviderError),
      stock_board_concept_name_ths = (\<lambda>t. Inl ProviderError),
      stock_board_concept_cons_ths = (\<lambda>t c. Inl ProviderError),
      today = \<lparr>year = 2024, month = 1, day = 15\<rparr>,
      set_order = (\<lambda>c. 0)\<rparr>"

definition row_a :: info_row where
  "row_a = \<lparr>code = ''600000'', name = Text ''A'', industry = Null, area = Null, market = Null,
            list_date = Null\<rparr>"

definition row_b :: info_row where
  "row_b = \<lparr>code = ''000001'', name = Text ''B'', industry = Null, area = Null, market = Null,
            list_date = Null\<rparr>"

definition db_ai :: database where
  "db_ai = init_database\<lparr>stock_concepts := [(Text ''600000'', Text ''AI'')]\<rparr>"

definition concepts_batch :: frame where
  "concepts_batch =
     \<lparr>cols = [''code'', ''concept''],
      rows = [[Text ''600000'', Text ''Chip''], [Text ''600000'', Text ''AI'']]\<rparr>"

definition prices_eight_columns :: frame where
  "prices_eight_columns =
     \<lparr>cols = [''code'', ''date'', ''open'', ''high'', ''low'', ''close'', ''volume'', ''pct_change''],
      rows = [[Text ''600000'', Text ''2024-01-02'', Num 10, Num 11, Num 9, Num 10, Num 1000,
               Num 5]]\<rparr>"

definition prices_ten_columns :: frame where
  "prices_ten_columns =
     \<lparr>cols = [''code'', ''date'', ''open'', ''high'', ''low'', ''close'', ''volume'', ''amount'',
              ''pct_change'', ''turnover_rate''],
      rows = [[Text ''600000'', Text ''2024-01-02'', Num 10, Num 11, Num 9, Num 10, Num 1000,
               Num 10000, Num 5, Num 2]]\<rparr>"

definition price_write_1 :: frame where
  "price_write_1 =
     \<lparr>cols = [''code'', ''date'', ''open'', ''high'', ''low'', ''close'', ''volume'', ''amount''],
      rows = [[Text ''600000'', Text ''2024-01-02'', Num 10, Num 11, Num 9, Num 10, Num 1000,
               Num 10000]]\<rparr>"

definition price_write_2 :: frame where
  "price_write_2 =
     \<lparr>cols = [''code'', ''date'', ''open'', ''high'', ''low'', ''close'', ''volume'', ''amount''],
      rows = [[Text ''600000'', Text ''2024-01-02'', Num 10, Num 12, Num 9, Num 11, Num 2000,
               Num 22000]]\<rparr>"

definition fifteen_concepts :: frame where
  "fifteen_concepts =
     \<lparr>cols = [col_concept_name_zh],
      rows = map (\<lambda>n. [Text n])
               [''c01'', ''c02'', ''c03'', ''c04'', ''c05'', ''c06'', ''c07'', ''c08'', ''c09'',
                ''c10'', ''c11'', ''c12'', ''c13'', ''c14'', ''c15'']\<rparr>"

definition env_fifteen :: environment where
  "env_fifteen = env_down\<lparr>stock_board_concept_name_ths := (\<lambda>t. Inr fifteen_concepts)\<rparr>"

definition sample_hist :: frame where
  "sample_hist =
     \<lparr>cols = [col_date_zh, col_open_zh, col_close_zh, col_high_zh, col_low_zh, col_volume_zh,
              col_amount_zh],
      rows = [[Text ''2024-01-12'', Num 10, Num 11, Num 12, Num 9, Num 1000, Num 10000]]\<rparr>"

definition env_abc :: environment where
  "env_abc =
     env_down
       \<lparr>stock_info_a_code_name :=
          (\<lambda>t. Inr [(''A'', Text ''Alpha''), (''B'', Text ''Beta''), (''C'', Text ''Gamma'')]),
        stock_zh_a_hist := (\<lambda>t c s e. if c = ''B'' then Inl ProviderError else Inr sample_hist)\<rparr>"

definition abc_rows :: "info_row list" where
  "abc_rows =
     [\<lparr>code = ''A'', name = Text ''Alpha'', industry = Null, area = Null, market = Null,
       list_date = Text ''2024-01-15''\<rparr>,
      \<lparr>code = ''B'', name = Text ''Beta'', industry = Null, area = Null, market = Null,
       list_date = Text ''2024-01-15''\<rparr>,
      \<lparr>code = ''C'', name = Text ''Gamma'', industry = Null, area = Null, market = Null,
       list_date = Text ''2024-01-15''\<rparr>]"

definition sample_prices :: "string \<Rightarrow> frame" where
  "sample_prices c =
     \<lparr>cols = [''code'', ''date'', ''open'', ''high'', ''low'', ''close'', ''volume'', ''amount''],
      rows = [[Text c, Text ''2024-01-12'', Num 10, Num 12, Num 9, Num 11, Num 1000,
               Num 10000]]\<rparr>"

definition world_watermarked :: world where
  "world_watermarked =
     \<lparr>db = init_database
             \<lparr>stock_prices :=
                [\<lparr>p_id = 1, p_code = Text ''A'', p_date = Text ''2024-01-10'', p_open = Num 10,
                  p_high = Num 12, p_low = Num 9, p_close = Num 11, p_volume = Num 1000,
                  p_amount = Num 10000\<rparr>,
                 \<lparr>p_id = 2, p_code = Text ''A'', p_date = Text ''2024-01-08'', p_open = Num 10,
                  p_high = Num 12, p_low = Num 9, p_close = Num 11, p_volume = Num 1000,
                  p_amount = Num 10000\<rparr>],
              stock_prices_seq := 2\<rparr>,
      tick = 0, trace = []\<rparr>"

section \<open>Persistence layer\<close>

lemma to_sql_stock_info_eq:
  "to_sql_stock_info rs tbl =
     (if distinct (map code rs) \<and> set (map code rs) \<inter> set (map code tbl) = {}
      then Inr (tbl @ rs) else Inl IntegrityError)"
  by (induction rs arbitrary: tbl) auto

lemma save_stock_info_eq:
  "save_stock_info stock_data d =
     (if distinct (map code stock_data) then (Inr (), d\<lparr>stock_info := stock_data\<rparr>)
      else (Inl IntegrityError, d\<lparr>stock_info := []\<rparr>))"
  by (simp add: save_stock_info_def to_sql_stock_info_eq)

text \<open>
  C3, as the code has it. \<open>save_stock_info\<close> commits the deletion of all instrument rows
  before it inserts the new ones. When the insertion raises (a code repeated in the
  batch), the error reaches the caller, none of the new rows is stored and the table is
  left empty; when it succeeds, the table holds exactly the new rows. No other table
  changes.
\<close>

theorem save_stock_info_replaces:
  "save_stock_info stock_data d =
     (if distinct (map code stock_data) then (Inr (), d\<lparr>stock_info := stock_data\<rparr>)
      else (Inl IntegrityError, d\<lparr>stock_info := []\<rparr>))"
  by (simp add: save_stock_info_def to_sql_stock_info_eq)

text \<open>
  C3, as the claim states it, fails: with instrument 600000 stored and a refresh whose
  batch repeats the code 000001, the insertion raises and the row of 600000, present
  before the refresh, is gone afterwards.
\<close>

theorem save_stock_info_not_atomic:
  "fst (save_stock_info [row_b, row_b] (init_database\<lparr>stock_info := [row_a]\<rparr>)) = Inl IntegrityError
   \<and> row_a \<in> set (stock_info (init_database\<lparr>stock_info := [row_a]\<rparr>))
   \<and> row_a \<notin> set (stock_info (snd (save_stock_info [row_b, row_b]
                                         (init_database\<lparr>stock_info := [row_a]\<rparr>))))"
  by (simp add: save_stock_info_def row_b_def)

text \<open>
  C6 at a failing input: the table already holds (600000, AI) and the batch carries
  (600000, Chip) and (600000, AI). \<open>save_stock_concepts\<close> raises IntegrityError to its
  caller and stores nothing of the batch, not even the new pair.
\<close>

theorem save_stock_concepts_duplicate_raises:
  "save_stock_concepts concepts_batch db_ai = (Inl IntegrityError, db_ai)"
  by (simp add: save_stock_concepts_def concepts_batch_def db_ai_def df_empty_def cell_at_def
      nth_cell_def key_present_def init_database_def)

text \<open>
  C10, as the code has it: a non-empty price frame that contains \<open>pct_change\<close> or
  \<open>turnover_rate\<close> and whose number of columns is not eight makes \<open>save_stock_prices\<close>
  raise, and no row is stored.
\<close>

theorem save_stock_prices_column_mismatch:
  assumes "\<not> df_empty price_data"
    and "''pct_change'' \<in> set (cols price_data) \<or> ''turnover_rate'' \<in> set (cols price_data)"
    and "length (cols price_data) \<noteq> 8"
  shows "save_stock_prices price_data d = (Inl OperationalError, d)"
  using assms by (simp add: save_stock_prices_def)

theorem save_stock_prices_column_mismatch_witness:
  "\<not> df_empty prices_ten_columns
   \<and> (''pct_change'' \<in> set (cols prices_ten_columns)
        \<or> ''turnover_rate'' \<in> set (cols prices_ten_columns))
   \<and> length (cols prices_ten_columns) \<noteq> 8
   \<and> save_stock_prices prices_ten_columns init_database = (Inl OperationalError, init_database)"
proof -
  have h1: "\<not> df_empty prices_ten_columns"
    by (simp add: df_empty_def prices_ten_columns_def)
  have h2: "''pct_change'' \<in> set (cols prices_ten_columns)
              \<or> ''turnover_rate'' \<in> set (cols prices_ten_columns)"
    by (simp add: prices_ten_columns_def)
  have h3: "length (cols prices_ten_columns) \<noteq> 8"
    by (simp add: prices_ten_columns_def)
  show ?thesis
    using h1 h2 h3 save_stock_prices_column_mismatch [OF h1 h2 h3, of init_database] by simp
qed

text \<open>
  The eight named columns together with one of the two optional ones are nine distinct
  labels, so a frame that has them all never has exactly eight columns.
\<close>

lemma nine_names_not_eight:
  assumes "set [''code'', ''date'', ''open'', ''high'', ''low'', ''close'', ''volume'', ''amount'', x]
             \<subseteq> set cs"
    and "x = ''pct_change'' \<or> x = ''turnover_rate''"
  shows "length cs \<noteq> 8"
proof -
  have "distinct [''code'', ''date'', ''open'', ''high'', ''low'', ''close'', ''volume'', ''amount'', x]"
    using assms(2) by auto
  then have "card (set [''code'', ''date'', ''open'', ''high'', ''low'', ''close'', ''volume'',
                        ''amount'', x]) = 9"
    using distinct_card by fastforce
  moreover have "card (set [''code'', ''date'', ''open'', ''high'', ''low'', ''close'', ''volume'',
                            ''amount'', x]) \<le> card (set cs)"
    using assms(1) by (intro card_mono) auto
  moreover have "card (set cs) \<le> length cs" by (rule card_length)
  ultimately show ?thesis by linarith
qed

text \<open>
  C10, as the claim states it, fails: a frame with the seven required columns and
  \<open>pct_change\<close>, but no \<open>amount\<close>, has eight columns; the statement is accepted and the
  row is stored, its \<open>pct_change\<close> value in the \<open>amount\<close> column.
\<close>

theorem save_stock_prices_eight_columns_accepted:
  "\<not> df_empty prices_eight_columns
   \<and> ''pct_change'' \<in> set (cols prices_eight_columns)
   \<and> save_stock_prices prices_eight_columns init_database =
       (Inr (),
        \<lparr>stock_info = [],
         stock_prices =
           [\<lparr>p_id = 1, p_code = Text ''600000'', p_date = Text ''2024-01-02'', p_open = Num 10,
             p_high = Num 11, p_low = Num 9, p_close = Num 10, p_volume = Num 1000,
             p_amount = Num 5\<rparr>],
         stock_prices_seq = 1, stock_concepts = []\<rparr>)"
  by (simp add: save_stock_prices_def prices_eight_columns_def df_empty_def init_database_def
      insert_or_replace_price_def price_row_of_def nth_cell_def)

section \<open>Price upsert\<close>

lemma distinct_map_filter_conj:
  "distinct (map f (filter P xs)) \<Longrightarrow> distinct (map f (filter (\<lambda>x. Q x \<and> P x) xs))"
  by (induction xs) (auto split: if_splits)

lemma insert_or_replace_unique:
  assumes "unique_price_keys d"
  shows "unique_price_keys (insert_or_replace_price d t)"
proof -
  let ?new = "price_row_of (stock_prices_seq d + 1) t"
  let ?kept = "filter (\<lambda>r. \<not> (key_present (price_key ?new) \<and> price_key r = price_key ?new))
                 (stock_prices d)"
  have kept: "distinct (filter key_present (map price_key ?kept))"
    using assms unfolding unique_price_keys_def
    by (simp add: filter_map comp_def distinct_map_filter_conj)
  have fresh: "key_present (price_key ?new) \<Longrightarrow> price_key ?new \<notin> set (map price_key ?kept)"
    by auto
  show ?thesis
    unfolding unique_price_keys_def insert_or_replace_price_def Let_def
    using kept fresh by auto
qed

lemma foldl_insert_unique:
  "unique_price_keys d \<Longrightarrow> unique_price_keys (foldl insert_or_replace_price d ts)"
  by (induction ts arbitrary: d) (simp_all add: insert_or_replace_unique)

lemma save_stock_prices_unique:
  "unique_price_keys d \<Longrightarrow> unique_price_keys (snd (save_stock_prices f d))"
  by (simp add: save_stock_prices_def foldl_insert_unique)

lemma save_all_prices_unique:
  "unique_price_keys d \<Longrightarrow> unique_price_keys (save_all_prices fs d)"
  unfolding save_all_prices_def
  by (induction fs arbitrary: d) (simp_all add: save_stock_prices_unique)

lemma price_key_row_of: "price_key (price_row_of i t) = tuple_key t"
  by (simp add: price_key_def price_row_of_def tuple_key_def)

lemma insert_same_key:
  assumes "key_present (tuple_key t)"
  shows "filter (\<lambda>r. price_key r = tuple_key t) (stock_prices (insert_or_replace_price d t))
           = [price_row_of (stock_prices_seq d + 1) t]"
  using assms
  by (simp add: insert_or_replace_price_def Let_def price_key_row_of filter_empty_conv)

lemma insert_other_key:
  assumes "tuple_key u \<noteq> k"
  shows "filter (\<lambda>r. price_key r = k) (stock_prices (insert_or_replace_price d u))
           = filter (\<lambda>r. price_key r = k) (stock_prices d)"
  using assms
  by (auto simp add: insert_or_replace_price_def Let_def price_key_row_of intro: filter_cong)

lemma foldl_other_keys:
  assumes "\<forall>u\<in>set post. tuple_key u \<noteq> k"
  shows "filter (\<lambda>r. price_key r = k) (stock_prices (foldl insert_or_replace_price d post))
           = filter (\<lambda>r. price_key r = k) (stock_prices d)"
  using assms by (induction post arbitrary: d) (simp_all add: insert_other_key)

lemma last_write_wins:
  assumes "length (cols f) = 8" "rows f = pre @ t # post" "key_present (tuple_key t)"
    "\<forall>u\<in>set post. tuple_key u \<noteq> tuple_key t"
  shows "\<exists>i. filter (\<lambda>r. price_key r = tuple_key t) (stock_prices (snd (save_stock_prices f d)))
           = [price_row_of i t]"
proof -
  have ne: "\<not> df_empty f" using assms(1,2) by (auto simp: df_empty_def)
  have "snd (save_stock_prices f d) =
          foldl insert_or_replace_price
            (insert_or_replace_price (foldl insert_or_replace_price d pre) t) post"
    using ne assms(1,2) by (simp add: save_stock_prices_def)
  then show ?thesis
    using foldl_other_keys [OF assms(4)] insert_same_key [OF assms(3)] by (simp del: ex_simps) blast
qed

text \<open>
  C5. Starting from a price table with at most one row per present \<open>(code, date)\<close> key
  (the empty table is one), every sequence of \<open>save_stock_prices\<close> calls leaves at most
  one row per key; and a further write whose batch carries a row \<open>t\<close> for a key, with no
  later row of the batch for the same key, leaves exactly one stored row under that key,
  all of whose data fields are those of \<open>t\<close> (last write wins, nothing of the earlier row
  is kept).
\<close>

theorem save_stock_prices_upsert:
  assumes "unique_price_keys d"
  shows "unique_price_keys (save_all_prices fs d) \<and>
         (\<forall>f t pre post.
            length (cols f) = 8 \<and> rows f = pre @ t # post \<and> key_present (tuple_key t) \<and>
            (\<forall>u\<in>set post. tuple_key u \<noteq> tuple_key t) \<longrightarrow>
            (\<exists>i. filter (\<lambda>r. price_key r = tuple_key t)
                   (stock_prices (snd (save_stock_prices f (save_all_prices fs d))))
                 = [price_row_of i t]))"
  using save_all_prices_unique [OF assms] last_write_wins by blast

theorem save_stock_prices_upsert_witness:
  "unique_price_keys init_database
   \<and> unique_price_keys (save_all_prices [price_write_1, price_write_2] init_database)
   \<and> stock_prices (save_all_prices [price_write_1, price_write_2] init_database) =
       [\<lparr>p_id = 2, p_code = Text ''600000'', p_date = Text ''2024-01-02'', p_open = Num 10,
         p_high = Num 12, p_low = Num 9, p_close = Num 11, p_volume = Num 2000,
         p_amount = Num 22000\<rparr>]"
proof -
  have h: "unique_price_keys init_database"
    by (simp add: unique_price_keys_def init_database_def)
  have e: "stock_prices (save_all_prices [price_write_1, price_write_2] init_database) =
       [\<lparr>p_id = 2, p_code = Text ''600000'', p_date = Text ''2024-01-02'', p_open = Num 10,
         p_high = Num 12, p_low = Num 9, p_close = Num 11, p_volume = Num 2000,
         p_amount = Num 22000\<rparr>]"
    by (simp add: save_all_prices_def save_stock_prices_def price_write_1_def price_write_2_def
        df_empty_def init_database_def insert_or_replace_price_def price_row_of_def nth_cell_def
        price_key_def key_present_def)
  show ?thesis
    using h e save_stock_prices_upsert [OF h, of "[price_write_1, price_write_2]"] by simp
qed

section \<open>Retry and the fetch methods\<close>

lemma retry_call_result:
  assumes "\<And>w v w'. f w = (Inr v, w') \<Longrightarrow> P v"
    and "retry_call n d b f w = (Inr v, w')"
  shows "P v"
  using assms(2)
proof (induction n arbitrary: d w)
  case 0
  then show ?case by simp
next
  case (Suc n)
  then show ?case
    using assms(1) by (auto split: prod.splits sum.splits if_splits)
qed

lemma extract_concepts_cap:
  "length (extract_concepts env f) \<le> 10 \<and> distinct (extract_concepts env f)"
  by (simp add: extract_concepts_def list_of_set_def Let_def)

lemma column_values_concept:
  "column_values ''concept'' \<lparr>cols = [''code'', ''concept''], rows = map (\<lambda>x. [Text c, x]) xs\<rparr> = xs"
  by (simp add: column_values_def nth_cell_def comp_def)

lemma fetch_stock_concepts_body_cap:
  assumes "fetch_stock_concepts_body env c w = (Inr f, w')"
  shows "length (rows f) \<le> 10 \<and> distinct (column_values ''concept'' f)"
proof (cases "fst (first_nonempty (concept_methods env c) w)")
  case (fields cs rs)
  obtain df w1 where fn: "first_nonempty (concept_methods env c) w = (df, w1)"
    by (cases "first_nonempty (concept_methods env c) w")
  show ?thesis
  proof (cases "\<not> df_empty df \<and> extract_concepts env df \<noteq> []")
    case True
    then have "f = \<lparr>cols = [''code'', ''concept''],
                     rows = map (\<lambda>x. [Text c, x]) (extract_concepts env df)\<rparr>"
      using assms fn by (auto simp: fetch_stock_concepts_body_def Let_def)
    then show ?thesis
      using extract_concepts_cap [of env df] by (simp add: column_values_concept)
  next
    case False
    then have "f = empty_frame"
      using assms fn by (auto simp: fetch_stock_concepts_body_def Let_def split: if_splits)
    then show ?thesis by (simp add: empty_frame_def column_values_def)
  qed
qed

text \<open>
  C9. Whatever the provider returns, a \<open>fetch_stock_concepts\<close> call that returns a table
  returns at most ten rows, and no concept occurs twice in it.
\<close>

theorem fetch_stock_concepts_cap:
  assumes "fetch_stock_concepts self env c w = (Inr f, w')"
  shows "length (rows f) \<le> 10 \<and> distinct (column_values ''concept'' f)"
  using assms unfolding fetch_stock_concepts_def
  by (rule retry_call_result [rotated]) (rule fetch_stock_concepts_body_cap)


lemma char_values:
  "char_of (48::nat) = CHR ''0''" "char_of (49::nat) = CHR ''1''" "char_of (50::nat) = CHR ''2''"
  "char_of (51::nat) = CHR ''3''" "char_of (52::nat) = CHR ''4''" "char_of (53::nat) = CHR ''5''"
  "char_of (54::nat) = CHR ''6''" "char_of (55::nat) = CHR ''7''" "char_of (56::nat) = CHR ''8''"
  "char_of (57::nat) = CHR ''9''"
  by code_simp+

lemmas eval_defs =
  provider_call_def log_event_def db_write_def world0_def env_down_def init_database_def
  df_empty_def empty_frame_def nth_cell_def numeral_3_eq_3
  strftime_compact_def strftime_iso_def pad4_def pad2_def digit_def char_values

theorem fetch_stock_concepts_cap_witness:
  "fetch_stock_concepts default_fetcher env_fifteen ''600000'' world0 =
     (Inr \<lparr>cols = [''code'', ''concept''],
           rows = map (\<lambda>n. [Text ''600000'', Text n])
                    [''c01'', ''c02'', ''c03'', ''c04'', ''c05'', ''c06'', ''c07'', ''c08'',
                     ''c09'', ''c10'']\<rparr>,
      world0\<lparr>tick := 1, trace := [Call_concept_name_ths]\<rparr>)
   \<and> length (rows \<lparr>cols = [''code'', ''concept''],
           rows = map (\<lambda>n. [Text ''600000'', Text n])
                    [''c01'', ''c02'', ''c03'', ''c04'', ''c05'', ''c06'', ''c07'', ''c08'',
                     ''c09'', ''c10'']\<rparr>) \<le> 10"
proof -
  have e: "fetch_stock_concepts default_fetcher env_fifteen ''600000'' world0 =
     (Inr \<lparr>cols = [''code'', ''concept''],
           rows = map (\<lambda>n. [Text ''600000'', Text n])
                    [''c01'', ''c02'', ''c03'', ''c04'', ''c05'', ''c06'', ''c07'', ''c08'',
                     ''c09'', ''c10'']\<rparr>,
      world0\<lparr>tick := 1, trace := [Call_concept_name_ths]\<rparr>)"
    by (simp add: fetch_stock_concepts_def fetch_stock_concepts_body_def concept_methods_def
        env_fifteen_def fifteen_concepts_def extract_concepts_def list_of_set_def
        column_values_def sort_key_def eval_defs)
  show ?thesis
    using e fetch_stock_concepts_cap [OF e] by simp
qed

lemma period_range_all_env_down:
  "period_range env_down ''all'' = Inr (''19900101'', ''20240115'')"
  by (simp add: period_range_def env_down_def strftime_compact_def pad4_def pad2_def digit_def
      char_values)

lemma fetch_stock_prices_body_env_down:
  "fetch_stock_prices_body env_down ''600000'' ''all'' w =
     (Inl ProviderError,
      w\<lparr>tick := tick w + 1,
        trace := trace w @ [Call_hist ''600000'' ''19900101'' ''20240115'']\<rparr>)"
  by (simp add: fetch_stock_prices_body_def period_range_all_env_down provider_call_def)
    (simp add: env_down_def)

lemma fetch_stock_list_body_env_down:
  "fetch_stock_list_body env_down w =
     (Inl ProviderError, w\<lparr>tick := tick w + 1, trace := trace w @ [Call_code_name]\<rparr>)"
  by (simp add: fetch_stock_list_body_def provider_call_def env_down_def)

lemma fetch_stock_list_env_down:
  "fetch_stock_list self env_down world0 =
     (Inl ProviderError,
      world0\<lparr>tick := 3,
             trace := [Call_code_name, Sleep 2, Call_code_name, Sleep 4, Call_code_name]\<rparr>)"
  by (simp add: fetch_stock_list_def fetch_stock_list_body_env_down numeral_3_eq_3 log_event_def
      world0_def)

text \<open>
  C8 at a failing input: a fetcher constructed with \<open>max_retries = 5\<close> and
  \<open>retry_delay = 1\<close>, against a provider that raises on every call. The price fetch and
  the list fetch make three attempts with pauses of 2 and 4 seconds and then raise; the
  concept fetch swallows the provider's exceptions itself, is not retried at all and
  returns an empty table.
\<close>

theorem fetchers_ignore_retry_settings:
  "fetch_stock_prices \<lparr>max_retries = 5, retry_delay = 1\<rparr> env_down ''600000'' ''all'' world0 =
     (Inl ProviderError,
      world0\<lparr>tick := 3,
             trace := [Call_hist ''600000'' ''19900101'' ''20240115'', Sleep 2,
                       Call_hist ''600000'' ''19900101'' ''20240115'', Sleep 4,
                       Call_hist ''600000'' ''19900101'' ''20240115'']\<rparr>)
   \<and> fetch_stock_list \<lparr>max_retries = 5, retry_delay = 1\<rparr> env_down world0 =
     (Inl ProviderError,
      world0\<lparr>tick := 3,
             trace := [Call_code_name, Sleep 2, Call_code_name, Sleep 4, Call_code_name]\<rparr>)
   \<and> fetch_stock_concepts \<lparr>max_retries = 5, retry_delay = 1\<rparr> env_down ''600000'' world0 =
     (Inr empty_frame,
      world0\<lparr>tick := 3,
             trace := [Call_concept_name_ths, Call_concept_cons_ths ''600000'',
                       Call_concept_name_ths]\<rparr>)"
proof -
  have "fetch_stock_prices \<lparr>max_retries = 5, retry_delay = 1\<rparr> env_down ''600000'' ''all'' world0 =
     (Inl ProviderError,
      world0\<lparr>tick := 3,
             trace := [Call_hist ''600000'' ''19900101'' ''20240115'', Sleep 2,
                       Call_hist ''600000'' ''19900101'' ''20240115'', Sleep 4,
                       Call_hist ''600000'' ''19900101'' ''20240115'']\<rparr>)"
    by (simp add: fetch_stock_prices_def fetch_stock_prices_body_env_down numeral_3_eq_3
        log_event_def world0_def)
  moreover have "fetch_stock_concepts \<lparr>max_retries = 5, retry_delay = 1\<rparr> env_down ''600000'' world0 =
     (Inr empty_frame,
      world0\<lparr>tick := 3,
             trace := [Call_concept_name_ths, Call_concept_cons_ths ''600000'',
                       Call_concept_name_ths]\<rparr>)"
    by (simp add: fetch_stock_concepts_def fetch_stock_concepts_body_def concept_methods_def
        eval_defs)
  ultimately show ?thesis
    using fetch_stock_list_env_down by simp
qed

text \<open>The fields of the fetcher play no part in any fetch.\<close>

lemma fetch_independent_of_settings:
  "fetch_stock_list self env = fetch_stock_list self' env"
  "fetch_stock_prices self env c period = fetch_stock_prices self' env c period"
  "fetch_stock_concepts self env c = fetch_stock_concepts self' env c"
  by (simp_all add: fetch_stock_list_def fetch_stock_prices_def fetch_stock_concepts_def)

lemma hist_requests_append:
  "hist_requests (xs @ ys) = hist_requests xs @ hist_requests ys"
  by (induction xs rule: hist_requests.induct) simp_all

section \<open>Dates as strings\<close>


















section \<open>The incremental window\<close>









lemma retry_call_obs:
  fixes obs :: "event list \<Rightarrow> 'b list"
  assumes hom: "\<And>xs ys. obs (xs @ ys) = obs xs @ obs ys"
    and sl: "\<And>d. obs [Sleep d] = []"
    and step: "\<And>w. \<exists>evs. trace (snd (f w)) = trace w @ evs \<and> obs evs = hs"
  shows "\<exists>evs k. trace (snd (retry_call (Suc n) d b f w)) = trace w @ evs \<and>
           1 \<le> k \<and> k \<le> Suc n \<and> obs evs = concat (replicate k hs)"
proof (induction n arbitrary: d w)
  case 0
  obtain evs where "trace (snd (f w)) = trace w @ evs" "obs evs = hs"
    using step by blast
  then have "trace (snd (retry_call (Suc 0) d b f w)) = trace w @ evs \<and>
           (1::nat) \<le> 1 \<and> (1::nat) \<le> Suc 0 \<and> obs evs = concat (replicate 1 hs)"
    by (auto split: prod.splits sum.splits)
  then show ?case by blast
next
  case (Suc n)
  obtain r w1 where fw: "f w = (r, w1)" by (cases "f w")
  obtain evs where evs: "trace w1 = trace w @ evs" "obs evs = hs"
    using step [of w] fw by auto
  show ?case
  proof (cases r)
    case (Inr v)
    then have "trace (snd (retry_call (Suc (Suc n)) d b f w)) = trace w @ evs \<and>
           (1::nat) \<le> 1 \<and> (1::nat) \<le> Suc (Suc n) \<and> obs evs = concat (replicate 1 hs)"
      using fw evs by simp
    then show ?thesis by blast
  next
    case (Inl e)
    let ?w2 = "log_event (Sleep d) w1"
    obtain evs' k where rec: "trace (snd (retry_call (Suc n) (d * b) b f ?w2)) = trace ?w2 @ evs'"
      "1 \<le> k" "k \<le> Suc n" "obs evs' = concat (replicate k hs)"
      using Suc.IH [of "d * b" ?w2] by blast
    have "obs (evs @ Sleep d # evs') = obs evs @ obs [Sleep d] @ obs evs'"
      using hom [of evs "[Sleep d] @ evs'"] hom [of "[Sleep d]" evs'] by simp
    then have "trace (snd (retry_call (Suc (Suc n)) d b f w)) = trace w @ (evs @ Sleep d # evs') \<and>
           1 \<le> Suc k \<and> Suc k \<le> Suc (Suc n) \<and>
           obs (evs @ Sleep d # evs') = concat (replicate (Suc k) hs)"
      using fw Inl evs rec sl by (simp add: log_event_def)
    then show ?thesis by blast
  qed
qed


lemma concat_replicate_nil: "concat (replicate k []) = []"
  by (induction k) simp_all



lemma db_write_trace: "trace (snd (db_write op w)) = trace w"
  by (simp add: db_write_def split: prod.splits)















section \<open>The fatal path\<close>

lemma retry_call_db:
  assumes "\<And>w. db (snd (f w)) = db w"
  shows "db (snd (retry_call n d b f w)) = db w"
proof (induction n arbitrary: d w)
  case 0
  then show ?case by simp
next
  case (Suc n)
  obtain r w1 where fw: "f w = (r, w1)" by (cases "f w")
  have "db w1 = db w" using assms [of w] fw by simp
  moreover have "db (log_event (Sleep d) w1) = db w1" by (simp add: log_event_def)
  ultimately show ?case
    using fw Suc.IH [of "d * b" "log_event (Sleep d) w1"] by (cases r) auto
qed

lemma provider_call_effect:
  "db (snd (provider_call ev oracle w)) = db w"
  "trace (snd (provider_call ev oracle w)) = trace w @ [ev]"
  by (simp_all add: provider_call_def)

lemma exchange_feed_effect:
  "db (snd (exchange_feed ev oracle mkt w)) = db w"
  "trace (snd (exchange_feed ev oracle mkt w)) = trace w @ [ev]"
  by (simp_all add: exchange_feed_def provider_call_def split: sum.splits)

lemma fetch_stock_list_body_effect:
  "db (snd (fetch_stock_list_body env w)) = db w \<and>
   (\<exists>evs. trace (snd (fetch_stock_list_body env w)) = trace w @ evs \<and> hist_requests evs = [])"
proof (cases "stock_info_a_code_name env (tick w)")
  case (Inl e)
  then show ?thesis
    by (simp add: fetch_stock_list_body_def provider_call_def)
next
  case (Inr stock_list)
  show ?thesis
  proof (cases "stock_list = []")
    case True
    then show ?thesis
      using Inr by (simp add: fetch_stock_list_body_def provider_call_def)
  next
    case False
    let ?w1 = "snd (provider_call Call_code_name (stock_info_a_code_name env) w)"
    obtain sh w2 where sh: "exchange_feed Call_sh_name_code (stock_info_sh_name_code env) ''SH'' ?w1
                              = (sh, w2)"
      by (cases "exchange_feed Call_sh_name_code (stock_info_sh_name_code env) ''SH'' ?w1")
    obtain sz w3 where sz: "exchange_feed Call_sz_name_code (stock_info_sz_name_code env) ''SZ'' w2
                              = (sz, w3)"
      by (cases "exchange_feed Call_sz_name_code (stock_info_sz_name_code env) ''SZ'' w2")
    have e2: "db w2 = db w" "trace w2 = trace w @ [Call_code_name, Call_sh_name_code]"
      using exchange_feed_effect [of Call_sh_name_code "stock_info_sh_name_code env" "''SH''" ?w1]
        sh by (simp_all add: provider_call_def)
    have e3: "db w3 = db w"
      "trace w3 = trace w @ [Call_code_name, Call_sh_name_code, Call_sz_name_code]"
      using exchange_feed_effect [of Call_sz_name_code "stock_info_sz_name_code env" "''SZ''" w2]
        sz e2 by simp_all
    have pc: "provider_call Call_code_name (stock_info_a_code_name env) w = (Inr stock_list, ?w1)"
      using Inr by (simp add: provider_call_def)
    show ?thesis
      using False pc sh sz e3
      by (simp add: fetch_stock_list_body_def Let_def provider_call_def split: prod.splits)
  qed
qed

lemma fetch_stock_list_effect:
  "db (snd (fetch_stock_list self env w)) = db w \<and>
   (\<exists>evs. trace (snd (fetch_stock_list self env w)) = trace w @ evs \<and> hist_requests evs = [])"
proof -
  let ?f = "fetch_stock_list_body env"
  have s: "\<And>w. \<exists>evs. trace (snd (?f w)) = trace w @ evs \<and> hist_requests evs = []"
    using fetch_stock_list_body_effect by blast
  obtain evs k where "trace (snd (retry_call (Suc 2) 2 2 ?f w)) = trace w @ evs"
    "hist_requests evs = concat (replicate k [])"
    using retry_call_obs [of hist_requests ?f "[]" 2 2 2 w, OF hist_requests_append _ s]
    by auto
  moreover have "db (snd (retry_call 3 2 2 ?f w)) = db w"
    using retry_call_db [of ?f 3 2 2 w] fetch_stock_list_body_effect by blast
  ultimately show ?thesis
    by (auto simp: fetch_stock_list_def numeral_3_eq_3 concat_replicate_nil)
qed

text \<open>
  The fatal path in general: when the list fetch raises after its retries, nothing is
  written in either mode; the incremental run returns False, the full run returns True.
\<close>

lemma fatal_path:
  assumes "fst (fetch_stock_list fetcher env w) = Inl e"
  shows "db (snd (download_all_stocks_data fetcher env price_period incremental w)) = db w
         \<and> fst (download_all_stocks_data fetcher env price_period incremental w) = (\<not> incremental)"
proof -
  obtain w1 where f: "fetch_stock_list fetcher env w = (Inl e, w1)"
    using assms by (cases "fetch_stock_list fetcher env w") auto
  have "db w1 = db w" using fetch_stock_list_effect [of fetcher env w] f by simp
  then show ?thesis
    using f by (simp add: download_all_stocks_data_def update_all_data_def)
qed

text \<open>
  C1 at a failing input: the provider raises on every call, so \<open>fetch_stock_list\<close>
  exhausts its three attempts. Nothing is written in either mode, and the incremental
  run returns False; but the full run, which goes through \<open>update_all_data\<close>, returns
  True.
\<close>

theorem full_download_reports_success_after_fatal_failure:
  "download_all_stocks_data default_fetcher env_down ''all'' False world0 =
     (True,
      world0\<lparr>tick := 3,
             trace := [Call_code_name, Sleep 2, Call_code_name, Sleep 4, Call_code_name]\<rparr>)
   \<and> download_all_stocks_data default_fetcher env_down ''all'' True world0 =
     (False,
      world0\<lparr>tick := 3,
             trace := [Call_code_name, Sleep 2, Call_code_name, Sleep 4, Call_code_name]\<rparr>)"
  by (simp add: download_all_stocks_data_def update_all_data_def fetch_stock_list_env_down)


section \<open>Failure isolation\<close>

text \<open>
  In the full mode the loop counts every instrument it processes as a success: the
  failure counter never moves.
\<close>

lemma update_loop_counts:
  "fst (update_loop self env price_period n i stocks counts w)
     = (fst counts + length stocks, snd counts)"
  by (induction stocks arbitrary: i counts w) (simp_all add: Let_def)

lemma fetch_stock_list_body_env_abc:
  "fetch_stock_list_body env_abc w =
     (Inr abc_rows,
      w\<lparr>tick := tick w + 4,
        trace := trace w @ [Call_code_name, Call_sh_name_code, Call_sz_name_code,
                            Call_stock_ipo ''A'']\<rparr>)"
  by (simp add: fetch_stock_list_body_def exchange_feed_def provider_call_def env_abc_def
      env_down_def abc_rows_def strftime_iso_def pad4_def pad2_def digit_def char_values)

lemma fetch_stock_list_env_abc:
  "fetch_stock_list self env_abc w =
     (Inr abc_rows,
      w\<lparr>tick := tick w + 4,
        trace := trace w @ [Call_code_name, Call_sh_name_code, Call_sz_name_code,
                            Call_stock_ipo ''A'']\<rparr>)"
  by (simp add: fetch_stock_list_def fetch_stock_list_body_env_abc numeral_3_eq_3)

lemma normalize_sample: "normalize_prices c sample_hist = sample_prices c"
  by (simp add: normalize_prices_def sample_hist_def sample_prices_def rename_columns_def
      column_mapping_def set_column_def select_columns_def add_missing_columns_def
      required_columns_def optional_columns_def nth_cell_def
      col_date_zh_def col_open_zh_def col_high_zh_def col_low_zh_def col_close_zh_def
      col_volume_zh_def col_amount_zh_def col_pct_change_zh_def col_turnover_rate_zh_def)


lemma period_range_all_env_abc:
  "period_range env_abc ''all'' = Inr (''19900101'', ''20240115'')"
  by (simp add: period_range_def env_abc_def env_down_def strftime_compact_def pad4_def pad2_def
      digit_def char_values)

lemma fetch_stock_prices_body_env_abc:
  "fetch_stock_prices_body env_abc c ''all'' w =
     ((if c = ''B'' then Inl ProviderError else Inr (sample_prices c)),
      w\<lparr>tick := tick w + 1, trace := trace w @ [Call_hist c ''19900101'' ''20240115'']\<rparr>)"
proof -
  have ne: "\<not> df_empty sample_hist"
    by (simp add: df_empty_def sample_hist_def)
  have o: "stock_zh_a_hist env_abc t c s e = (if c = ''B'' then Inl ProviderError else Inr sample_hist)"
    for t s e
    by (simp add: env_abc_def)
  show ?thesis
    by (simp add: fetch_stock_prices_body_def period_range_all_env_abc provider_call_def o ne
        normalize_sample)
qed

lemma update_prices_env_abc_ok:
  assumes "c \<noteq> ''B''"
  shows "update_prices self env_abc c ''all'' w =
     w\<lparr>db := insert_or_replace_price (db w)
               [Text c, Text ''2024-01-12'', Num 10, Num 12, Num 9, Num 11, Num 1000, Num 10000],
       tick := tick w + 1,
       trace := trace w @ [Call_hist c ''19900101'' ''20240115'']\<rparr>"
  using assms
  by (simp add: update_prices_def fetch_stock_prices_def fetch_stock_prices_body_env_abc
      numeral_3_eq_3 db_write_def save_stock_prices_def sample_prices_def df_empty_def)

lemma update_prices_env_abc_B:
  "update_prices self env_abc ''B'' ''all'' w =
     w\<lparr>tick := tick w + 3,
       trace := trace w @ [Call_hist ''B'' ''19900101'' ''20240115'', Sleep 2,
                           Call_hist ''B'' ''19900101'' ''20240115'', Sleep 4,
                           Call_hist ''B'' ''19900101'' ''20240115'']\<rparr>"
  by (simp add: update_prices_def fetch_stock_prices_def fetch_stock_prices_body_env_abc
      numeral_3_eq_3 log_event_def)

lemma update_concepts_env_abc:
  "update_concepts self env_abc c w =
     w\<lparr>tick := tick w + 3,
       trace := trace w @ [Call_concept_name_ths, Call_concept_cons_ths c,
                           Call_concept_name_ths]\<rparr>"
  by (simp add: update_concepts_def fetch_stock_concepts_def fetch_stock_concepts_body_def
      concept_methods_def provider_call_def env_abc_def env_down_def numeral_3_eq_3
      df_empty_def empty_frame_def)


lemmas run_abc_defs =
  fetch_stock_list_env_abc db_write_def save_stock_info_def abc_rows_def to_sql_stock_info.simps
  update_prices_env_abc_ok update_prices_env_abc_B update_concepts_env_abc pause_after_def
  log_event_def world0_def init_database_def insert_or_replace_price_def price_row_of_def
  nth_cell_def price_key_def key_present_def Let_def

text \<open>
  C2 at a failing input: the catalog is A, B, C and the price fetch for B raises on each
  of its three attempts. The full run completes and returns True, and the prices of A
  and C are stored while nothing is stored for B; but the summary reports 3 successes
  and 0 failures: B is counted as a success.
\<close>

theorem isolated_failure_counted_as_success:
  "fst (download_all_stocks_data default_fetcher env_abc ''all'' False world0) = True
   \<and> last (trace (snd (download_all_stocks_data default_fetcher env_abc ''all'' False world0)))
       = Summary 3 0
   \<and> hist_requests
         (trace (snd (download_all_stocks_data default_fetcher env_abc ''all'' False world0)))
       = [(''A'', ''19900101'', ''20240115''), (''B'', ''19900101'', ''20240115''),
          (''B'', ''19900101'', ''20240115''), (''B'', ''19900101'', ''20240115''),
          (''C'', ''19900101'', ''20240115'')]
   \<and> map p_code
         (stock_prices
           (db (snd (download_all_stocks_data default_fetcher env_abc ''all'' False world0))))
       = [Text ''A'', Text ''C'']"
proof -
  have full: "snd (download_all_stocks_data default_fetcher env_abc ''all'' False world0) =
     update_all_data default_fetcher env_abc None ''all'' world0"
    "fst (download_all_stocks_data default_fetcher env_abc ''all'' False world0) = True"
    by (simp_all add: download_all_stocks_data_def)
  have f1: "last (trace (update_all_data default_fetcher env_abc None ''all'' world0)) = Summary 3 0"
    by (simp add: update_all_data_def run_abc_defs)
  have f2: "hist_requests (trace (update_all_data default_fetcher env_abc None ''all'' world0))
       = [(''A'', ''19900101'', ''20240115''), (''B'', ''19900101'', ''20240115''),
          (''B'', ''19900101'', ''20240115''), (''B'', ''19900101'', ''20240115''),
          (''C'', ''19900101'', ''20240115'')]"
    by (simp add: update_all_data_def run_abc_defs)
  have f3: "map p_code (stock_prices (db (update_all_data default_fetcher env_abc None ''all'' world0)))
       = [Text ''A'', Text ''C'']"
    by (simp add: update_all_data_def run_abc_defs)
  show ?thesis
    using full f1 f2 f3 by simp
qed

section \<open>The watermark lookup\<close>

text \<open>
  No incremental run completes: each of its paths ends in a return of False, the one
  through a successful catalog refresh because the watermark lookup raises. So the loop
  over the instruments is never entered, and no price request is ever sent.
\<close>

lemma incremental_run_returns_false:
  "fst (download_all_stocks_data fetcher env price_period True w) = False"
  by (simp add: download_all_stocks_data_def get_all_stocks_latest_dates_def
      split: prod.splits sum.splits)

lemma incremental_run_no_price_request:
  "\<exists>evs. trace (snd (download_all_stocks_data fetcher env price_period True w)) = trace w @ evs
         \<and> hist_requests evs = []"
proof -
  obtain r w1 where f: "fetch_stock_list fetcher env w = (r, w1)"
    by (cases "fetch_stock_list fetcher env w")
  obtain evs where evs: "trace w1 = trace w @ evs" "hist_requests evs = []"
    using fetch_stock_list_effect [of fetcher env w] f by auto
  have "trace (snd (download_all_stocks_data fetcher env price_period True w)) = trace w1"
  proof (cases r)
    case (Inl e)
    then show ?thesis using f by (simp add: download_all_stocks_data_def)
  next
    case (Inr stock_list)
    obtain r2 w2 where sv: "db_write (save_stock_info stock_list) w1 = (r2, w2)"
      by (cases "db_write (save_stock_info stock_list) w1")
    have "trace w2 = trace w1"
      using db_write_trace [of "save_stock_info stock_list" w1] sv by simp
    then show ?thesis
      using f Inr sv
      by (simp add: download_all_stocks_data_def get_all_stocks_latest_dates_def
          split: sum.splits)
  qed
  then show ?thesis using evs by simp
qed

text \<open>
  C7 at a failing input: prices of A are stored up to 2024-01-10 and the catalog fetch
  returns A, B, C. The incremental run replaces the catalog, fails at the watermark
  lookup and returns False: the only provider calls are the four of the catalog fetch,
  no watermark is resolved, no price is requested, and the price table is as before.
\<close>

theorem incremental_run_stops_at_watermark_lookup:
  "fst (download_all_stocks_data default_fetcher env_abc ''all'' True world_watermarked) = False
   \<and> trace (snd (download_all_stocks_data default_fetcher env_abc ''all'' True world_watermarked))
       = [Call_code_name, Call_sh_name_code, Call_sz_name_code, Call_stock_ipo ''A'']
   \<and> stock_info
         (db (snd (download_all_stocks_data default_fetcher env_abc ''all'' True
                     world_watermarked)))
       = abc_rows
   \<and> stock_prices
         (db (snd (download_all_stocks_data default_fetcher env_abc ''all'' True
                     world_watermarked)))
       = stock_prices (db world_watermarked)
   \<and> get_all_stocks_latest_dates
         (db (snd (download_all_stocks_data default_fetcher env_abc ''all'' True
                     world_watermarked)))
       = Inl AttributeError"
proof -
  have ne: "abc_rows \<noteq> []" and di: "distinct (map code abc_rows)"
    by (simp_all add: abc_rows_def)
  have run: "download_all_stocks_data default_fetcher env_abc ''all'' True world_watermarked =
     (False,
      world_watermarked
        \<lparr>db := (db world_watermarked)\<lparr>stock_info := abc_rows\<rparr>,
         tick := tick world_watermarked + 4,
         trace := trace world_watermarked @ [Call_code_name, Call_sh_name_code,
                                             Call_sz_name_code, Call_stock_ipo ''A'']\<rparr>)"
    using ne di
    by (simp add: download_all_stocks_data_def fetch_stock_list_env_abc db_write_def
        save_stock_info_eq get_all_stocks_latest_dates_def)
  show ?thesis
    unfolding run by (simp add: world_watermarked_def get_all_stocks_latest_dates_def)
qed

end
